theory Spec2Isabelle
  imports Main
begin

section \<open>Values of the settings files\<close>

text \<open>
  The settings files of the editor are JSON documents; Python sees their values as
  \<open>None\<close>, \<open>bool\<close>, numbers, \<open>str\<close>, \<open>list\<close> and \<open>dict\<close>. A dict is kept as an
  association list read with \<open>map_of\<close> (the first binding of a key counts). Numbers are
  integers here: \<open>RemoteEdit.py\<close> only tests the type and the truth value of a number.
\<close>

datatype json =
    JNull
  | JBool bool
  | JNum int
  | JStr string
  | JList "json list"
  | JDict "(string \<times> json) list"

text \<open>
  The exceptions the plugin can end in. \<open>OSError\<close> stands for every error of a file
  system call (\<open>FileNotFoundError\<close>, \<open>IsADirectoryError\<close>, \<open>NotADirectoryError\<close> and
  the others are its subclasses; which of them is raised depends on the system, and the
  plugin catches none).
\<close>

datatype error =
    AttributeError
  | UnicodeDecodeError
  | OSError
  | ValueError

text \<open>Python's truth value of a settings value (\<open>not x\<close> is its negation).\<close>

fun truthy :: "json \<Rightarrow> bool" where
  "truthy JNull = False"
| "truthy (JBool b) = b"
| "truthy (JNum n) = (n \<noteq> 0)"
| "truthy (JStr s) = (s \<noteq> [])"
| "truthy (JList xs) = (xs \<noteq> [])"
| "truthy (JDict d) = (d \<noteq> [])"

text \<open>\<open>isinstance(x, bool)\<close> and \<open>isinstance(x, dict)\<close>.\<close>

fun is_bool :: "json \<Rightarrow> bool" where
  "is_bool (JBool b) = True"
| "is_bool _ = False"

fun is_dict :: "json \<Rightarrow> bool" where
  "is_dict (JDict d) = True"
| "is_dict _ = False"

fun items :: "json \<Rightarrow> (string \<times> json) list" where
  "items (JDict d) = d"
| "items _ = []"

text \<open>\<open>d.get(k)\<close>: the value bound to \<open>k\<close>, \<open>None\<close> when there is none.\<close>

definition dict_get :: "(string \<times> json) list \<Rightarrow> string \<Rightarrow> json" where
  "dict_get d k = (case map_of d k of None \<Rightarrow> JNull | Some v \<Rightarrow> v)"

section \<open>get_settings\<close>

text \<open>
  The dict that \<open>get_settings\<close> builds and returns: the keys \<open>create_if_missing\<close>
  (\<open>None\<close>, \<open>True\<close> or \<open>False\<close>) and \<open>ssh_configs\<close> (a dict from alias to descriptor).
\<close>

record settings =
  s_create_if_missing :: json
  s_ssh_configs :: "(string \<times> json) list"

text \<open>
  The body of the \<open>for sub_settings in [...]\<close> loop, as a recursion over the layers that
  are left. The loop carries two things: the local variable \<open>create_if_missing\<close> (the
  argument of the caller at first) and the dict \<open>settings\<close>.
  \<^item> a layer that is \<open>None\<close> is skipped (\<open>continue\<close>);
  \<^item> a layer that is false in Python (\<open>{}\<close>, \<open>0\<close>, \<open>''\<close>, ...) is replaced by \<open>{}\<close>;
  \<^item> any other layer that is no dict has no \<open>get\<close>: \<open>AttributeError\<close>;
  \<^item> only when the local variable is not \<open>None\<close>, it is overwritten by the layer's
    \<open>create_if_missing\<close>, or by \<open>False\<close> when that is no \<open>bool\<close>, and stored;
  \<^item> \<open>ssh_configs\<close> is overwritten by the layer's \<open>ssh_configs\<close>, or by \<open>{}\<close> when that
    is no dict.
\<close>

fun merge_layers :: "json list \<Rightarrow> json \<Rightarrow> settings \<Rightarrow> error + settings" where
  "merge_layers [] create_if_missing settings = Inr settings"
| "merge_layers (sub_settings # rest) create_if_missing settings =
     (if sub_settings = JNull then merge_layers rest create_if_missing settings
      else if truthy sub_settings \<and> \<not> is_dict sub_settings then Inl AttributeError
      else
        let sub = (if \<not> truthy sub_settings then [] else items sub_settings);
            c = dict_get sub ''create_if_missing'';
            c' = (if \<not> is_bool c then JBool False else c);
            create_if_missing' = (if create_if_missing \<noteq> JNull then c' else create_if_missing);
            settings1 = (if create_if_missing \<noteq> JNull
                         then settings\<lparr>s_create_if_missing := c'\<rparr> else settings);
            ssh = dict_get sub ''ssh_configs'';
            ssh' = (if \<not> is_dict ssh then [] else items ssh)
        in merge_layers rest create_if_missing' (settings1\<lparr>s_ssh_configs := ssh'\<rparr>))"

text \<open>
  \<open>get_settings(window, create_if_missing)\<close>. The two layers are the global settings
  (\<open>sublime.load_settings\<close>: a settings object, never \<open>None\<close> and always true in Python;
  its \<open>get\<close> is a dict's, so it is given here as the dict of its contents, for which the
  loop does the same) and the value of \<open>remote_edit\<close> in the window's project data.
  \<open>window.project_data()\<close> is \<open>None\<close> for a window without a project, and then
  \<open>.get\<close> raises. The command always passes its own window, so the fallback to the
  active window is not taken.
\<close>

definition get_settings ::
  "(string \<times> json) list \<Rightarrow> (string \<times> json) list option \<Rightarrow> json \<Rightarrow> error + settings" where
  "get_settings global_settings project_data create_if_missing =
     (case project_data of
        None \<Rightarrow> Inl AttributeError
      | Some pd \<Rightarrow>
          merge_layers [JDict global_settings, dict_get pd ''remote_edit''] create_if_missing
            \<lparr>s_create_if_missing = create_if_missing, s_ssh_configs = []\<rparr>)"

section \<open>Strings and paths\<close>

text \<open>
  Text is a \<open>string\<close> of bytes: an ASCII character is one byte, and a character
  outside ASCII stands as the bytes of its UTF-8 form. \<open>str.lower\<close> is taken on the
  ASCII letters, every other byte being left as it is; the plugin only looks for two
  ASCII phrases in the lowered text, and no character outside ASCII is lowered by
  Python to a letter of either phrase in a place where it could complete one.
\<close>

definition lower_char :: "char \<Rightarrow> char" where
  "lower_char c =
     (case map_of (zip ''ABCDEFGHIJKLMNOPQRSTUVWXYZ'' ''abcdefghijklmnopqrstuvwxyz'') c of
        None \<Rightarrow> c
      | Some d \<Rightarrow> d)"

definition lower :: "string \<Rightarrow> string" where
  "lower s = map lower_char s"

fun startswith :: "string \<Rightarrow> string \<Rightarrow> bool" where
  "startswith s [] = True"
| "startswith [] (p # ps) = False"
| "startswith (c # cs) (p # ps) = (c = p \<and> startswith cs ps)"

text \<open>\<open>sub in s\<close> on strings: \<open>sub\<close> occurs in \<open>s\<close> as a contiguous piece.\<close>

fun contains :: "string \<Rightarrow> string \<Rightarrow> bool" where
  "contains [] sub = (sub = [])"
| "contains (c # cs) sub = (startswith (c # cs) sub \<or> contains cs sub)"

definition digit_val :: "char \<Rightarrow> nat" where
  "digit_val c =
     (case map_of (zip ''0123456789'' [0, 1, 2, 3, 4, 5, 6, 7, 8, 9]) c of
        None \<Rightarrow> 0
      | Some d \<Rightarrow> d)"

definition ascii :: "char \<Rightarrow> bool" where
  "ascii c = (\<not> digit7 c)"

text \<open>
  \<open>s.isdigit()\<close> and \<open>int(s)\<close>. On an ASCII string both are computed here:
  \<open>isdigit\<close> holds of a string that is not empty and has the characters 0 to 9 only,
  and \<open>int\<close> of such a string is its decimal value. For a string with a character
  outside ASCII Python decides both from its Unicode tables, which are not part of the
  repository: there the answers are parameters of the model, \<open>uni\<close>. \<open>int_of\<close> is
  only asked of a string of which \<open>isdigit\<close> holds; its value \<open>None\<close> is the
  \<open>ValueError\<close> of \<open>int\<close>, raised for a digit that is no decimal digit, such as a
  superscript two.
\<close>

definition isdigit :: "(string \<Rightarrow> bool) \<Rightarrow> string \<Rightarrow> bool" where
  "isdigit uni s =
     (if list_all ascii s then s \<noteq> [] \<and> list_all (\<lambda>c. c \<in> set ''0123456789'') s
      else uni s)"

definition int_of :: "(string \<Rightarrow> nat option) \<Rightarrow> string \<Rightarrow> nat option" where
  "int_of uni s =
     (if list_all ascii s then Some (foldl (\<lambda>n c. 10 * n + digit_val c) 0 s)
      else uni s)"

text \<open>
  Lines 157 to 159: \<open>line_no = '0'\<close>, and when the path has a colon,
  \<open>path, line_no = path.split(':', 1)\<close>: the path is cut at its first colon. The
  result is the pair \<open>(path, line_no)\<close>.
\<close>

definition split_line :: "string \<Rightarrow> string \<times> string" where
  "split_line path =
     (if CHR '':'' \<in> set path
      then (takeWhile (\<lambda>c. c \<noteq> CHR '':'') path, tl (dropWhile (\<lambda>c. c \<noteq> CHR '':'') path))
      else (path, ''0''))"


definition basename :: "string \<Rightarrow> string" where
  "basename p = rev (takeWhile (\<lambda>c. c \<noteq> CHR ''/'') (rev p))"


definition join :: "string \<Rightarrow> string \<Rightarrow> string" where
  "join a b =
     (if startswith b ''/'' then b
      else if a = [] \<or> last a = CHR ''/'' then a @ b
      else a @ ''/'' @ b)"

section \<open>The world: file system, views and the calls made\<close>

text \<open>
  The local file system, without links: the regular files with their contents and the
  directories, each at its place, which is the list of the names that lead to it from
  the root (the root itself, the empty list, is a directory always), and the current
  directory. Permissions are not part of it: a call on a path fails only for what the
  path leads to.
\<close>

record fs =
  files :: "(string list \<times> string) list"
  dirs :: "string list list"
  cwd :: "string list"

text \<open>
  What the plugin makes the host and the system do, in order: the shell command of the
  transfer, the two kinds of message, the two deletions, and the calls on the view that
  is shown (\<open>focus_view\<close>, the selection cleared, the selection set to a line and
  shown). The calls of \<open>log\<close> only print and are left out.
\<close>

datatype event =
    Exec string
  | ErrorMessage string
  | StatusMessage string
  | Unlink string
  | Rmdir string
  | FocusView nat
  | ClearSelection nat
  | ShowLine nat nat

text \<open>
  A view of the editor: its id, the window it is in, the file it shows, and the four
  settings the plugin attaches to it, each absent (\<open>None\<close>) until it is set, with the
  types the plugin writes (the fields \<open>v_...\<close>). \<open>create_if_missing\<close> holds what
  \<open>get_settings\<close> gave: \<open>None\<close>, \<open>True\<close> or \<open>False\<close>; \<open>settings.has\<close> is true of a key
  once it is set.
\<close>

record view =
  vid :: nat
  window :: nat
  file_name :: "string option"
  v_is_remote_edit :: "bool option"
  v_scp_path :: "string option"
  v_temp_path :: "string option"
  v_create_if_missing :: "json option"

record world =
  disk :: fs
  views :: "view list"
  trace :: "event list"

text \<open>
  A call either returns, leaving a world, or raises, and then the world is as it was
  when the exception left: what was done before stays done.
\<close>

type_synonym result = "error \<times> world + world"

definition world_of :: "result \<Rightarrow> world" where
  "world_of r = (case r of Inl (err, w) \<Rightarrow> w | Inr w \<Rightarrow> w)"

text \<open>
  What one run of the external \<open>scp\<close> gives back: its exit status, its standard error
  decoded as UTF-8 (\<open>None\<close> when the bytes do not decode), and the local file system it
  leaves. The process itself is a parameter \<open>exec\<close> of the model, from the command and
  the file system before.
\<close>

record proc =
  returncode :: int
  stderr :: "string option"
  disk_after :: fs

text \<open>
  How the system reads a path. \<open>p.split('/')\<close> gives its names; the walk starts at the
  root for a path that begins with a slash and at the current directory otherwise, and
  takes one name at a time, from a place that must be a directory: an empty name and
  \<open>.\<close> stay, \<open>..\<close> goes up (the root is its own parent), any other name goes down.
  The place reached need not exist. No place is reached for the empty path or through
  what is no directory.
\<close>

fun split_slash :: "string \<Rightarrow> string list" where
  "split_slash [] = [[]]"
| "split_slash (c # cs) =
     (if c = CHR ''/'' then [] # split_slash cs
      else (case split_slash cs of [] \<Rightarrow> [[c]] | x # xs \<Rightarrow> (c # x) # xs))"

definition is_dir :: "fs \<Rightarrow> string list \<Rightarrow> bool" where
  "is_dir f q = (q = [] \<or> q \<in> set (dirs f))"

definition is_file :: "fs \<Rightarrow> string list \<Rightarrow> bool" where
  "is_file f q = (q \<in> set (map fst (files f)))"

fun walk :: "fs \<Rightarrow> string list \<Rightarrow> string list \<Rightarrow> string list option" where
  "walk f cur [] = Some cur"
| "walk f cur (c # cs) =
     (if \<not> is_dir f cur then None
      else walk f (if c = [] \<or> c = ''.'' then cur
                   else if c = ''..'' then butlast cur
                   else cur @ [c]) cs)"

definition locate :: "fs \<Rightarrow> string \<Rightarrow> string list option" where
  "locate f p =
     (if p = [] then None
      else walk f (if startswith p ''/'' then [] else cwd f) (split_slash p))"

text \<open>\<open>os.path.exists\<close>: the path leads to a file or to a directory.\<close>

definition path_exists :: "fs \<Rightarrow> string \<Rightarrow> bool" where
  "path_exists f p =
     (case locate f p of None \<Rightarrow> False | Some q \<Rightarrow> is_dir f q \<or> is_file f q)"

text \<open>The contents of the regular file a path leads to.\<close>

definition read_file :: "fs \<Rightarrow> string \<Rightarrow> string option" where
  "read_file f p = (case locate f p of None \<Rightarrow> None | Some q \<Rightarrow> map_of (files f) q)"

definition log_event :: "event \<Rightarrow> world \<Rightarrow> world" where
  "log_event e w = w\<lparr>trace := trace w @ [e]\<rparr>"

text \<open>
  \<open>open(p, 'w').close()\<close>: the file \<open>p\<close> exists afterwards and is empty. It raises
  when the path reaches no place or leads to a directory.
\<close>

definition open_w :: "string \<Rightarrow> world \<Rightarrow> result" where
  "open_w p w =
     (case locate (disk w) p of
        None \<Rightarrow> Inl (OSError, w)
      | Some q \<Rightarrow>
          if is_dir (disk w) q then Inl (OSError, w)
          else Inr (w\<lparr>disk := (disk w)
                 \<lparr>files := (q, []) # filter (\<lambda>e. fst e \<noteq> q) (files (disk w))\<rparr>\<rparr>))"





text \<open>
  \<open>tempfile.mkdtemp()\<close> makes a new directory and returns its path, or raises when
  it can make none. The path is the choice of the system, a parameter \<open>tmpdir\<close> of the
  model: the directory is made there, and the call raises when no place is reached or
  the place is taken.
\<close>

definition mkdtemp :: "string \<Rightarrow> world \<Rightarrow> result" where
  "mkdtemp tmpdir w =
     (case locate (disk w) tmpdir of
        None \<Rightarrow> Inl (OSError, w)
      | Some q \<Rightarrow>
          if is_dir (disk w) q \<or> is_file (disk w) q then Inl (OSError, w)
          else Inr (w\<lparr>disk := (disk w)\<lparr>dirs := q # dirs (disk w)\<rparr>\<rparr>))"

section \<open>scp\<close>

definition command :: "string \<Rightarrow> string \<Rightarrow> string" where
  \<open>command from_path to_path =
     ''scp -o StrictHostKeychecking=no "'' @ from_path @ ''" "'' @ to_path @ ''"''\<close>

text \<open>The state once the process has exited: the disk it left, and the call recorded.\<close>

definition after_exec :: "(string \<Rightarrow> fs \<Rightarrow> proc) \<Rightarrow> string \<Rightarrow> string \<Rightarrow> world \<Rightarrow> world" where
  "after_exec exec from_path to_path w =
     log_event (Exec (command from_path to_path))
       (w\<lparr>disk := disk_after (exec (command from_path to_path) (disk w))\<rparr>)"

text \<open>
  \<open>scp(from_path, to_path, create_if_missing)\<close>, lines 62 to 95. Nothing is done
  unless the exit status is 1 and the decoded error text is not empty.
\<close>

definition scp ::
  "(string \<Rightarrow> fs \<Rightarrow> proc) \<Rightarrow> string \<Rightarrow> string \<Rightarrow> json \<Rightarrow> world \<Rightarrow> result" where
  "scp exec from_path to_path create_if_missing w =
     (let pipe = exec (command from_path to_path) (disk w);
          w1 = after_exec exec from_path to_path w
      in if returncode pipe = 1 then
           (case stderr pipe of
              None \<Rightarrow> Inl (UnicodeDecodeError, w1)
            | Some error_message \<Rightarrow>
                if error_message \<noteq> [] then
                  (if \<not> contains (lower error_message) ''no such file or directory'' \<or>
                      contains (lower error_message) ''please try again'' \<or>
                      CHR ''@'' \<notin> set from_path \<or> \<not> truthy create_if_missing
                   then Inr (log_event (ErrorMessage error_message) w1)
                   else if CHR ''@'' \<notin> set to_path \<and> truthy create_if_missing
                   then open_w to_path
                          (log_event (StatusMessage ''Could not get file, so creating it'') w1)
                   else Inr (log_event (StatusMessage ''Could not get file, not creating it'') w1))
                else Inr w1)
         else Inr w1)"

section \<open>RemoteEditOpenRemoteFileCommand.run\<close>

text \<open>
  What the command reads from outside when it runs: the external process, the directory
  \<open>mkdtemp\<close> makes, the global settings, the project data of each window, Python's
  \<open>str\<close> of a value that is no string (needed where \<open>%s\<close> formats one), and what
  \<open>str.isdigit\<close> and \<open>int\<close> say of a string with a character outside ASCII.
\<close>

record env =
  exec :: "string \<Rightarrow> fs \<Rightarrow> proc"
  tmpdir :: string
  load_settings :: "(string \<times> json) list"
  project_data :: "nat \<Rightarrow> (string \<times> json) list option"
  py_str :: "json \<Rightarrow> string"
  unicode_isdigit :: "string \<Rightarrow> bool"
  unicode_int :: "string \<Rightarrow> nat option"

definition fmt :: "(json \<Rightarrow> string) \<Rightarrow> json \<Rightarrow> string" where
  "fmt str v = (case v of JStr s \<Rightarrow> s | _ \<Rightarrow> str v)"

text \<open>
  Lines 161 to 163: \<open>address:path\<close>, the address being the alias when the descriptor
  has no \<open>address\<close>, with \<open>username@\<close> in front when the descriptor has a \<open>username\<close>.
\<close>

definition compose_scp_path ::
  "(json \<Rightarrow> string) \<Rightarrow> (string \<times> json) list \<Rightarrow> string \<Rightarrow> string \<Rightarrow> string" where
  "compose_scp_path str ssh_config alias path =
     (let scp_path =
            fmt str (case map_of ssh_config ''address'' of None \<Rightarrow> JStr alias | Some a \<Rightarrow> a)
              @ '':'' @ path
      in case map_of ssh_config ''username'' of
           None \<Rightarrow> scp_path
         | Some u \<Rightarrow> fmt str u @ ''@'' @ scp_path)"

text \<open>
  Lines 167 to 173, the lookup of an open session: the first view of the command's own
  window (\<open>self.window.views()\<close>) whose \<open>is_remote_edit\<close> is true, whose \<open>scp_path\<close>
  is the composed one and whose \<open>temp_path\<close> is not empty.
\<close>

definition holds_session :: "string \<Rightarrow> view \<Rightarrow> bool" where
  "holds_session sp cur_view =
     (v_is_remote_edit cur_view = Some True \<and> v_scp_path cur_view = Some sp \<and>
      (case v_temp_path cur_view of None \<Rightarrow> False | Some t \<Rightarrow> t \<noteq> []))"

definition find_view :: "world \<Rightarrow> nat \<Rightarrow> string \<Rightarrow> view option" where
  "find_view w wid sp = find (holds_session sp) (filter (\<lambda>v. window v = wid) (views w))"

text \<open>
  \<open>window.open_file(p)\<close> of the host: the view of that window which shows the file
  already, or else a new view, with an id no view has, added to the window.
\<close>

definition fresh_vid :: "world \<Rightarrow> nat" where
  "fresh_vid w = Suc (foldr max (map vid (views w)) 0)"

definition open_file :: "nat \<Rightarrow> string \<Rightarrow> world \<Rightarrow> view \<times> world" where
  "open_file wid p w =
     (case find (\<lambda>v. window v = wid \<and> file_name v = Some p) (views w) of
        Some v \<Rightarrow> (v, w)
      | None \<Rightarrow>
          (let v = \<lparr>vid = fresh_vid w, window = wid, file_name = Some p,
                    v_is_remote_edit = None, v_scp_path = None, v_temp_path = None,
                    v_create_if_missing = None\<rparr>
           in (v, w\<lparr>views := views w @ [v]\<rparr>)))"

text \<open>The view object is changed in place: the world holds the changed view under its id.\<close>

definition put_view :: "view \<Rightarrow> world \<Rightarrow> world" where
  "put_view v w = w\<lparr>views := map (\<lambda>u. if vid u = vid v then v else u) (views w)\<rparr>"

text \<open>
  Lines 191 to 198: the view is focused, and when \<open>line_no\<close> is not empty and
  \<open>isdigit\<close> holds of it, the selection is cleared, \<open>int(line_no)\<close> is taken, which
  can raise, and the selection is set to the start of that line and shown.
\<close>

definition show_view :: "env \<Rightarrow> view \<Rightarrow> string \<Rightarrow> world \<Rightarrow> result" where
  "show_view e v line_no w =
     (let w1 = log_event (FocusView (vid v)) w
      in if line_no \<noteq> [] \<and> isdigit (unicode_isdigit e) line_no
         then (let w2 = log_event (ClearSelection (vid v)) w1
               in case int_of (unicode_int e) line_no of
                    None \<Rightarrow> Inl (ValueError, w2)
                  | Some n \<Rightarrow> Inr (log_event (ShowLine (vid v) n) w2))
         else Inr w1)"

text \<open>
  Lines 165 to 198, once the alias is resolved: the \<open>for ... else\<close> over the views, the
  fetch into a new temporary directory when no session is found, the return when the
  file is not there afterwards, and the registration of the session on the view.
\<close>

definition open_target ::
  "env \<Rightarrow> nat \<Rightarrow> string \<Rightarrow> string \<Rightarrow> string \<Rightarrow> json \<Rightarrow> world \<Rightarrow> result" where
  "open_target e wid scp_path path line_no create_if_missing w =
     (case find_view w wid scp_path of
        Some v \<Rightarrow> show_view e v line_no w
      | None \<Rightarrow>
          (case mkdtemp (tmpdir e) w of
             Inl x \<Rightarrow> Inl x
           | Inr w0 \<Rightarrow>
               (let temp_path = join (tmpdir e) (basename path)
                in case scp (exec e) scp_path temp_path create_if_missing w0 of
                     Inl x \<Rightarrow> Inl x
                   | Inr w1 \<Rightarrow>
                       if \<not> path_exists (disk w1) temp_path then Inr w1
                       else
                         (let (v, w2) = open_file wid temp_path w1;
                              v' = v\<lparr>v_is_remote_edit := Some True,
                                     v_scp_path := Some scp_path,
                                     v_temp_path := Some temp_path,
                                     v_create_if_missing := Some create_if_missing\<rparr>
                          in show_view e v' line_no (put_view v' w2)))))"

text \<open>
  \<open>run(alias, path, create_if_missing)\<close> in the window \<open>wid\<close>. An alias that is not in
  the table, or is bound to \<open>None\<close>, gives the error message and nothing else; a
  descriptor that is no dict has no \<open>get\<close>.
\<close>

definition run :: "env \<Rightarrow> nat \<Rightarrow> string \<Rightarrow> string \<Rightarrow> json \<Rightarrow> world \<Rightarrow> result" where
  \<open>run e wid alias path create_if_missing w =
     (case get_settings (load_settings e) (project_data e wid) create_if_missing of
        Inl err \<Rightarrow> Inl (err, w)
      | Inr settings \<Rightarrow>
          (case dict_get (s_ssh_configs settings) alias of
             JNull \<Rightarrow>
               Inr (log_event (ErrorMessage (''Cound not find ssh config alias "'' @ alias @ ''".'')) w)
           | JDict ssh_config \<Rightarrow>
               open_target e wid
                 (compose_scp_path (py_str e) ssh_config alias (fst (split_line path)))
                 (fst (split_line path)) (snd (split_line path))
                 (s_create_if_missing settings) w
           | _ \<Rightarrow> Inl (AttributeError, w)))\<close>

section \<open>RemoteEditListener\<close>

text \<open>\<open>on_post_save(view)\<close>: the transfer back, with the three settings of the view.\<close>

definition on_post_save :: "(string \<Rightarrow> fs \<Rightarrow> proc) \<Rightarrow> view \<Rightarrow> world \<Rightarrow> result" where
  "on_post_save ex v w =
     (case (v_create_if_missing v, v_scp_path v, v_temp_path v) of
        (Some c, Some sp, Some tp) \<Rightarrow>
          if v_is_remote_edit v = Some True then scp ex tp sp c w else Inr w
      | _ \<Rightarrow> Inr w)"



text \<open>
  A run of post-save events on the view with the id \<open>i\<close>, one external process for
  each: the host calls \<open>on_post_save\<close> with the view as it is then. Beside it, the
  same number of transfers with a fixed source, destination and policy.
\<close>

fun save_all :: "(string \<Rightarrow> fs \<Rightarrow> proc) list \<Rightarrow> nat \<Rightarrow> world \<Rightarrow> result" where
  "save_all [] i w = Inr w"
| "save_all (ex # exs) i w =
     (case find (\<lambda>u. vid u = i) (views w) of
        None \<Rightarrow> Inr w
      | Some v \<Rightarrow>
          (case on_post_save ex v w of
             Inl x \<Rightarrow> Inl x
           | Inr w' \<Rightarrow> save_all exs i w'))"

fun push_all ::
  "(string \<Rightarrow> fs \<Rightarrow> proc) list \<Rightarrow> string \<Rightarrow> string \<Rightarrow> json \<Rightarrow> world \<Rightarrow> result" where
  "push_all [] tp sp c w = Inr w"
| "push_all (ex # exs) tp sp c w =
     (case scp ex tp sp c w of
        Inl x \<Rightarrow> Inl x
      | Inr w' \<Rightarrow> push_all exs tp sp c w')"

text \<open>The transfers made so far: the \<open>Exec\<close> events of the trace.\<close>

fun is_exec :: "event \<Rightarrow> bool" where
  "is_exec (Exec cmd) = True"
| "is_exec _ = False"

definition transfers :: "world \<Rightarrow> nat" where
  "transfers w = length (filter is_exec (trace w))"

section \<open>Notions used in the statements\<close>

text \<open>
  A layer the loop of \<open>get_settings\<close> can read: \<open>None\<close>, a dict, or a value that is
  false in Python. What a present layer gives for \<open>create_if_missing\<close> (lines 42 and
  43) and for \<open>ssh_configs\<close> (lines 46 and 47).
\<close>

definition layer_ok :: "json \<Rightarrow> bool" where
  "layer_ok l = (is_dict l \<or> \<not> truthy l)"

definition layer_flag :: "json \<Rightarrow> json" where
  "layer_flag l =
     (let c = dict_get (items l) ''create_if_missing'' in if is_bool c then c else JBool False)"

definition layer_table :: "json \<Rightarrow> (string \<times> json) list" where
  "layer_table l =
     (let t = dict_get (items l) ''ssh_configs'' in if is_dict t then items t else [])"

section \<open>A small world for the examples\<close>

text \<open>
  A disk with \<open>/tmp\<close> only, no view open; the alias \<open>prod\<close> of the global settings,
  with \<open>create_if_missing\<close> set; a process that exits with a given status and error
  text and leaves the disk as it was, and one that writes the fetched file. Of the
  strings outside ASCII, the examples take a superscript two to be the one of which
  \<open>isdigit\<close> holds, and \<open>int\<close> to accept none, as Python has it for that character.
\<close>

definition ex_disk :: fs where
  "ex_disk = \<lparr>files = [], dirs = [[''tmp'']], cwd = []\<rparr>"

definition ex_world :: world where
  "ex_world = \<lparr>disk = ex_disk, views = [], trace = []\<rparr>"

definition ex_settings :: "(string \<times> json) list" where
  "ex_settings =
     [(''create_if_missing'', JBool True),
      (''ssh_configs'',
         JDict [(''prod'', JDict [(''address'', JStr ''10.0.0.5''), (''username'', JStr ''dev'')])])]"

definition exits_with :: "int \<Rightarrow> string \<Rightarrow> string \<Rightarrow> fs \<Rightarrow> proc" where
  "exits_with rc msg cmd f = \<lparr>returncode = rc, stderr = Some msg, disk_after = f\<rparr>"

definition fetches :: "string list \<Rightarrow> string \<Rightarrow> string \<Rightarrow> fs \<Rightarrow> proc" where
  "fetches q content cmd f =
     \<lparr>returncode = 0, stderr = Some [], disk_after = f\<lparr>files := (q, content) # files f\<rparr>\<rparr>"

definition superscript_two :: string where
  "superscript_two = [CHR 0xC2, CHR 0xB2]"

definition ex_env :: "(string \<Rightarrow> fs \<Rightarrow> proc) \<Rightarrow> env" where
  "ex_env x = \<lparr>exec = x, tmpdir = ''/tmp/tmpab'', load_settings = ex_settings,
               project_data = (\<lambda>_. Some []), py_str = (\<lambda>_. []),
               unicode_isdigit = (\<lambda>s. s = superscript_two), unicode_int = (\<lambda>_. None)\<rparr>"

definition ex_view :: view where
  "ex_view = \<lparr>vid = 1, window = 0, file_name = Some ''/tmp/tmpab/app.conf'',
              v_is_remote_edit = Some True, v_scp_path = Some ''dev@10.0.0.5:/etc/app.conf'',
              v_temp_path = Some ''/tmp/tmpab/app.conf'',
              v_create_if_missing = Some (JBool True)\<rparr>"

definition ex_opened :: world where
  "ex_opened =
     \<lparr>disk = \<lparr>files = [([''tmp'', ''tmpab'', ''app.conf''], ''port = 80'')],
               dirs = [[''tmp'', ''tmpab''], [''tmp'']], cwd = []\<rparr>,
      views = [ex_view],
      trace = [Exec (command ''dev@10.0.0.5:/etc/app.conf'' ''/tmp/tmpab/app.conf''),
               FocusView 1, ClearSelection 1, ShowLine 1 0]\<rparr>"

text \<open>
  The session that the open command registers for the remote path \<open>/etc/\<close>, whose
  base name is empty: its temporary path is the temporary directory itself.
\<close>

definition ex_dir_view :: view where
  "ex_dir_view = \<lparr>vid = 1, window = 0, file_name = Some ''/tmp/tmpab/'',
                  v_is_remote_edit = Some True, v_scp_path = Some ''dev@10.0.0.5:/etc/'',
                  v_temp_path = Some ''/tmp/tmpab/'',
                  v_create_if_missing = Some (JBool True)\<rparr>"

definition ex_dir_opened :: world where
  "ex_dir_opened =
     \<lparr>disk = \<lparr>files = [], dirs = [[''tmp'', ''tmpab''], [''tmp'']], cwd = []\<rparr>,
      views = [ex_dir_view],
      trace = [Exec (command ''dev@10.0.0.5:/etc/'' ''/tmp/tmpab/''),
               FocusView 1, ClearSelection 1, ShowLine 1 0]\<rparr>"

section \<open>Basic facts on events and files\<close>

lemma world_of_simps [simp]: "world_of (Inr w) = w" "world_of (Inl (err, w)) = w"
  by (simp_all add: world_of_def)

lemma trace_log_event [simp]: "trace (log_event e w) = trace w @ [e]"
  and disk_log_event [simp]: "disk (log_event e w) = disk w"
  and views_log_event [simp]: "views (log_event e w) = views w"
  by (simp_all add: log_event_def)

lemma disk_after_exec [simp]:
    "disk (after_exec ex f t w) = disk_after (ex (command f t) (disk w))"
  and views_after_exec [simp]: "views (after_exec ex f t w) = views w"
  and trace_after_exec [simp]: "trace (after_exec ex f t w) = trace w @ [Exec (command f t)]"
  by (simp_all add: after_exec_def)

lemma walk_dirs: "dirs f' = dirs f \<Longrightarrow> walk f' cur cs = walk f cur cs"
  by (induction cs arbitrary: cur) (simp_all add: is_dir_def)

lemma locate_dirs: "dirs f' = dirs f \<Longrightarrow> cwd f' = cwd f \<Longrightarrow> locate f' p = locate f p"
  using walk_dirs [of f' f] by (simp add: locate_def)

lemma mkdtemp_Inr:
  assumes "mkdtemp d w = Inr w0"
  shows "views w0 = views w" and "trace w0 = trace w"
  using assms by (auto simp: mkdtemp_def split: option.splits if_splits)


lemma open_w_Inr:
  assumes "open_w p w = Inr w'"
  shows "trace w' = trace w" and "views w' = views w"
    and "read_file (disk w') p = Some []" and "dirs (disk w') = dirs (disk w)"
proof -
  obtain q where q: "locate (disk w) p = Some q" and nd: "\<not> is_dir (disk w) q"
    and w': "w' = w\<lparr>disk := (disk w)
                 \<lparr>files := (q, []) # filter (\<lambda>e. fst e \<noteq> q) (files (disk w))\<rparr>\<rparr>"
    using assms by (auto simp: open_w_def split: option.splits if_splits)
  show "trace w' = trace w" and "views w' = views w" and "dirs (disk w') = dirs (disk w)"
    by (simp_all add: w')
  have "locate (disk w') p = locate (disk w) p" by (rule locate_dirs) (simp_all add: w')
  then show "read_file (disk w') p = Some []" using q by (simp add: read_file_def w')
qed

lemma open_w_world [simp]:
  "trace (world_of (open_w p w)) = trace w" "views (world_of (open_w p w)) = views w"
  by (auto simp: open_w_def split: option.splits)

lemma log_event_inject: "log_event e w = log_event e' w' \<Longrightarrow> e = e'"
proof -
  assume "log_event e w = log_event e' w'"
  then have "trace (log_event e w) = trace (log_event e' w')" by simp
  then show ?thesis by simp
qed

lemma log_event_neq: "log_event e w \<noteq> w"
proof
  assume "log_event e w = w"
  then have "trace (log_event e w) = trace w" by simp
  then show False by simp
qed

lemma open_w_log_neq: "open_w p (log_event e w) \<noteq> Inr w"
proof
  assume "open_w p (log_event e w) = Inr w"
  from open_w_Inr(1) [OF this] show False by simp
qed

section \<open>get_settings: the merged options\<close>

lemma merge_layers_nil: "merge_layers [] c s = Inr s"
  by simp

lemma merge_layers_null: "merge_layers (JNull # ls) c s = merge_layers ls c s"
  by simp

lemma merge_layers_present:
  assumes "l \<noteq> JNull" "layer_ok l"
  shows "merge_layers (l # ls) c s =
     merge_layers ls (if c \<noteq> JNull then layer_flag l else c)
       ((if c \<noteq> JNull then s\<lparr>s_create_if_missing := layer_flag l\<rparr> else s)
          \<lparr>s_ssh_configs := layer_table l\<rparr>)"
  using assms by (cases l) (auto simp: layer_ok_def layer_flag_def layer_table_def Let_def)

lemma layer_flag_not_null: "layer_flag l \<noteq> JNull"
  by (auto simp: layer_flag_def Let_def)

text \<open>
  Without an override from the caller (\<open>create_if_missing\<close> is \<open>None\<close>, the default of
  \<open>run\<close>), no layer is asked and the value stays \<open>None\<close>.
\<close>

lemma merge_layers_no_override:
  "merge_layers ls JNull s = Inr s' \<Longrightarrow> s_create_if_missing s' = s_create_if_missing s"
proof (induction ls arbitrary: s)
  case Nil
  then show ?case by simp
next
  case (Cons l ls)
  then show ?case
    by (cases "l = JNull") (auto simp: Let_def split: if_splits)
qed

text \<open>
  C3, as the code has it. When the caller passes a \<open>create_if_missing\<close> that is not
  \<open>None\<close>, the merged value over the layers [global, project] is the project layer's
  value when that layer is present (\<open>False\<close> unless it holds a boolean there), else the
  global layer's value when that layer is present (again \<open>False\<close> unless boolean), else
  the value passed. A present layer whose \<open>create_if_missing\<close> is absent or no boolean
  sets the value to \<open>False\<close>; only a layer that is \<open>None\<close> leaves it unchanged.
\<close>

theorem merged_create_if_missing:
  assumes "layer_ok g" and "layer_ok p" and "c \<noteq> JNull"
  shows "\<exists>s'. merge_layers [g, p] c s = Inr s' \<and>
           s_create_if_missing s' =
             (if p \<noteq> JNull then layer_flag p
              else if g \<noteq> JNull then layer_flag g
              else s_create_if_missing s)"
  using assms
  by (cases "g = JNull"; cases "p = JNull")
     (simp_all add: merge_layers_nil merge_layers_null merge_layers_present layer_flag_not_null
        del: merge_layers.simps)

theorem merged_create_if_missing_witness:
  "\<exists>s'. merge_layers [JDict [(''create_if_missing'', JBool True)], JNull] (JBool False)
           \<lparr>s_create_if_missing = JBool False, s_ssh_configs = []\<rparr> = Inr s' \<and>
        s_create_if_missing s' = JBool True"
  using merged_create_if_missing
          [of "JDict [(''create_if_missing'', JBool True)]" JNull "JBool False"
              "\<lparr>s_create_if_missing = JBool False, s_ssh_configs = []\<rparr>"]
  by (simp add: layer_ok_def layer_flag_def dict_get_def)

text \<open>
  C3 as it is written fails: the global layer says \<open>True\<close>, the project layer is
  present and says nothing, and the merged value is \<open>False\<close>, not the global one.
\<close>

theorem merged_create_if_missing_counterexample:
  "get_settings [(''create_if_missing'', JBool True)]
     (Some [(''remote_edit'', JDict [(''debug'', JBool True)])]) (JBool True)
   = Inr \<lparr>s_create_if_missing = JBool False, s_ssh_configs = []\<rparr>"
  by (simp add: get_settings_def dict_get_def)

text \<open>
  C4, as the code has it. For every sequence of layers, the merged alias table is the
  one of the last layer that is present (not \<open>None\<close>): its \<open>ssh_configs\<close> when that is
  a dict, the empty table when it is not or is absent. A present layer replaces the
  table as a whole, also when it defines none; only a layer that is \<open>None\<close> leaves the
  table unchanged, and with no present layer the table is the initial, empty one.
\<close>

theorem merged_ssh_configs:
  assumes "\<forall>l \<in> set ls. layer_ok l"
  shows "\<exists>s'. merge_layers ls c s = Inr s' \<and>
           s_ssh_configs s' =
             (case rev (filter (\<lambda>l. l \<noteq> JNull) ls) of
                [] \<Rightarrow> s_ssh_configs s
              | l # _ \<Rightarrow> layer_table l)"
  using assms
proof (induction ls arbitrary: c s)
  case Nil
  then show ?case by simp
next
  case (Cons l ls)
  have ok: "layer_ok l" and oks: "\<forall>l \<in> set ls. layer_ok l"
    using Cons.prems by simp_all
  show ?case
  proof (cases "l = JNull")
    case True
    then show ?thesis using Cons.IH [OF oks, of c s] by simp
  next
    case False
    let ?c = "if c \<noteq> JNull then layer_flag l else c"
    let ?s = "(if c \<noteq> JNull then s\<lparr>s_create_if_missing := layer_flag l\<rparr> else s)
                \<lparr>s_ssh_configs := layer_table l\<rparr>"
    have step: "merge_layers (l # ls) c s = merge_layers ls ?c ?s"
      using False ok by (rule merge_layers_present)
    obtain s' where s': "merge_layers ls ?c ?s = Inr s'"
      and tab: "s_ssh_configs s' =
        (case rev (filter (\<lambda>l. l \<noteq> JNull) ls) of
           [] \<Rightarrow> s_ssh_configs ?s
         | l # _ \<Rightarrow> layer_table l)"
      using Cons.IH [OF oks, of ?c ?s] by blast
    have "s_ssh_configs s' =
        (case rev (filter (\<lambda>l. l \<noteq> JNull) (l # ls)) of
           [] \<Rightarrow> s_ssh_configs s
         | l # _ \<Rightarrow> layer_table l)"
      using tab False by (simp split: list.splits)
    then show ?thesis using step s' by simp
  qed
qed

theorem merged_ssh_configs_witness:
  "\<exists>s'. merge_layers
           [JDict [(''ssh_configs'', JDict [(''a'', JDict [(''address'', JStr ''h1'')])])],
            JDict [(''ssh_configs'', JDict [(''b'', JDict [(''address'', JStr ''h2'')])])],
            JNull]
           JNull \<lparr>s_create_if_missing = JNull, s_ssh_configs = []\<rparr> = Inr s' \<and>
        s_ssh_configs s' = [(''b'', JDict [(''address'', JStr ''h2'')])]"
  using merged_ssh_configs
          [of "[JDict [(''ssh_configs'', JDict [(''a'', JDict [(''address'', JStr ''h1'')])])],
                JDict [(''ssh_configs'', JDict [(''b'', JDict [(''address'', JStr ''h2'')])])],
                JNull]"
              JNull "\<lparr>s_create_if_missing = JNull, s_ssh_configs = []\<rparr>"]
  by (simp add: layer_ok_def layer_table_def dict_get_def)

text \<open>
  C4 as it is written fails: the global layer defines a table, the project layer is
  present and defines none, and the merged table is empty, not the global one.
\<close>

theorem merged_ssh_configs_counterexample:
  "get_settings [(''ssh_configs'', JDict [(''prod'', JDict [(''address'', JStr ''10.0.0.5'')])])]
     (Some [(''remote_edit'', JDict [(''debug'', JBool True)])]) JNull
   = Inr \<lparr>s_create_if_missing = JNull, s_ssh_configs = []\<rparr>"
  by (simp add: get_settings_def dict_get_def)

section \<open>scp: what is done with the exit status and the error text\<close>

text \<open>
  C1, as the code has it. For every transfer whose exit status is 1 and whose error
  text is not empty: the error text is shown in full (the fatal outcome) if and only
  if the text does not contain "no such file or directory" (lower case taken), or
  contains "please try again", or the source has no \<open>@\<close>, or \<open>create_if_missing\<close> is
  false in Python; otherwise, when the destination has no \<open>@\<close>, the status "so
  creating it" is shown and the destination is opened for writing, which leaves it
  empty when it succeeds; otherwise the status "not creating it" is shown and nothing
  else is done. An exit status other than 0 and 1 is not classified.
\<close>

theorem scp_classification:
  assumes rc: "returncode (ex (command f t) (disk w)) = 1"
      and err: "stderr (ex (command f t) (disk w)) = Some msg"
      and ne: "msg \<noteq> []"
  shows "((scp ex f t c w = Inr (log_event (ErrorMessage msg) (after_exec ex f t w))) \<longleftrightarrow>
            (\<not> contains (lower msg) ''no such file or directory'' \<or>
             contains (lower msg) ''please try again'' \<or>
             CHR ''@'' \<notin> set f \<or> \<not> truthy c)) \<and>
         (contains (lower msg) ''no such file or directory'' \<and>
          \<not> contains (lower msg) ''please try again'' \<and>
          CHR ''@'' \<in> set f \<and> truthy c \<longrightarrow>
            (if CHR ''@'' \<notin> set t
             then scp ex f t c w =
                    open_w t (log_event (StatusMessage ''Could not get file, so creating it'')
                                (after_exec ex f t w)) \<and>
                  (\<forall>w'. scp ex f t c w = Inr w' \<longrightarrow> read_file (disk w') t = Some [])
             else scp ex f t c w =
                    Inr (log_event (StatusMessage ''Could not get file, not creating it'')
                           (after_exec ex f t w))))"
proof -
  let ?fatal = "\<not> contains (lower msg) ''no such file or directory'' \<or>
             contains (lower msg) ''please try again'' \<or>
             CHR ''@'' \<notin> set f \<or> \<not> truthy c"
  let ?w1 = "after_exec ex f t w"
  have fatal: "?fatal \<Longrightarrow> scp ex f t c w = Inr (log_event (ErrorMessage msg) ?w1)"
    using rc err ne by (simp add: scp_def Let_def)
  have create: "\<not> ?fatal \<Longrightarrow> CHR ''@'' \<notin> set t \<Longrightarrow> scp ex f t c w =
        open_w t (log_event (StatusMessage ''Could not get file, so creating it'') ?w1)"
    using rc err ne by (simp add: scp_def Let_def)
  have skip: "\<not> ?fatal \<Longrightarrow> CHR ''@'' \<in> set t \<Longrightarrow> scp ex f t c w =
        Inr (log_event (StatusMessage ''Could not get file, not creating it'') ?w1)"
    using rc err ne by (simp add: scp_def Let_def)
  have other: "scp ex f t c w \<noteq> Inr (log_event (ErrorMessage msg) ?w1)" if nf: "\<not> ?fatal"
  proof (cases "CHR ''@'' \<in> set t")
    case True
    show ?thesis using skip [OF nf True] by (auto dest: log_event_inject)
  next
    case False
    show ?thesis
    proof
      assume eq: "scp ex f t c w = Inr (log_event (ErrorMessage msg) ?w1)"
      then have "open_w t (log_event (StatusMessage ''Could not get file, so creating it'') ?w1)
           = Inr (log_event (ErrorMessage msg) ?w1)" using create [OF nf False] by simp
      from open_w_Inr(1) [OF this] show False by simp
    qed
  qed
  have iff: "(scp ex f t c w = Inr (log_event (ErrorMessage msg) ?w1)) \<longleftrightarrow> ?fatal"
    using fatal other by blast
  have empty: "\<forall>w'. scp ex f t c w = Inr w' \<longrightarrow> read_file (disk w') t = Some []"
    if "\<not> ?fatal" "CHR ''@'' \<notin> set t"
    using create [OF that] open_w_Inr(3) by auto
  show ?thesis using iff create skip empty by auto
qed

theorem scp_classification_witness:
  "\<exists>w'. scp (exits_with 1 ''scp: /etc/app.conf: No such file or directory'')
            ''dev@10.0.0.5:/etc/app.conf'' ''/tmp/tmpab/app.conf'' (JBool True)
            (ex_world\<lparr>disk := ex_disk\<lparr>dirs := [[''tmp'', ''tmpab''], [''tmp'']]\<rparr>\<rparr>) = Inr w' \<and>
        read_file (disk w') ''/tmp/tmpab/app.conf'' = Some [] \<and>
        trace w' = [Exec (command ''dev@10.0.0.5:/etc/app.conf'' ''/tmp/tmpab/app.conf''),
                    StatusMessage ''Could not get file, so creating it'']"
  using scp_classification
          [of "exits_with 1 ''scp: /etc/app.conf: No such file or directory''"
              "''dev@10.0.0.5:/etc/app.conf''" "''/tmp/tmpab/app.conf''"
              "ex_world\<lparr>disk := ex_disk\<lparr>dirs := [[''tmp'', ''tmpab''], [''tmp'']]\<rparr>\<rparr>"
              "''scp: /etc/app.conf: No such file or directory''" "JBool True"]
  by (simp add: exits_with_def lower_def lower_char_def open_w_def ex_world_def ex_disk_def
        locate_def is_dir_def read_file_def after_exec_def log_event_def)

text \<open>
  C1 as it is written fails for an exit status that is neither 0 nor 1: with status 2
  and the text "lost connection", which the table makes fatal, no message is shown.
\<close>

theorem scp_classification_counterexample:
  "scp (exits_with 2 ''lost connection'') ''dev@10.0.0.5:/etc/app.conf''
     ''/tmp/tmpab/app.conf'' (JBool True) ex_world
   = Inr (ex_world\<lparr>trace := [Exec (command ''dev@10.0.0.5:/etc/app.conf'' ''/tmp/tmpab/app.conf'')]\<rparr>)"
  by (simp add: scp_def after_exec_def exits_with_def ex_world_def log_event_def)

text \<open>
  C2, as the code has it. What \<open>scp\<close> does is a function of its arguments, of the
  state and of what the process gives for this one command (two runs that get the
  same from the process do the same). It does nothing beyond running the process, as
  for a success, if and only if the exit status is not 1 or the error text is empty:
  only the exit status 1 with an error text enters the classification.
\<close>

theorem scp_no_action_iff:
  "((scp ex f t c w = Inr (after_exec ex f t w)) \<longleftrightarrow>
      (returncode (ex (command f t) (disk w)) \<noteq> 1 \<or>
       stderr (ex (command f t) (disk w)) = Some [])) \<and>
   (ex (command f t) (disk w) = ex' (command f t) (disk w) \<longrightarrow>
      scp ex f t c w = scp ex' f t c w)"
proof
  show "(scp ex f t c w = Inr (after_exec ex f t w)) \<longleftrightarrow>
      (returncode (ex (command f t) (disk w)) \<noteq> 1 \<or>
       stderr (ex (command f t) (disk w)) = Some [])"
    by (cases "stderr (ex (command f t) (disk w))")
       (auto simp: scp_def Let_def log_event_neq open_w_log_neq)
next
  show "ex (command f t) (disk w) = ex' (command f t) (disk w) \<longrightarrow>
      scp ex f t c w = scp ex' f t c w"
    by (simp add: scp_def after_exec_def)
qed

theorem scp_no_action_iff_witness:
  "scp (exits_with 1 []) ''dev@10.0.0.5:/etc/app.conf'' ''/tmp/tmpab/app.conf'' (JBool True)
     ex_world
   = Inr (after_exec (exits_with 1 []) ''dev@10.0.0.5:/etc/app.conf'' ''/tmp/tmpab/app.conf''
            ex_world)"
  using scp_no_action_iff
          [of "exits_with 1 []" "''dev@10.0.0.5:/etc/app.conf''" "''/tmp/tmpab/app.conf''"
              "JBool True" ex_world "exits_with 1 []"]
  by (simp add: exits_with_def)

text \<open>
  C2 as it is written fails: the exit status 255 with an error text is not classified,
  and the result is the one of the exit status 0.
\<close>

theorem scp_no_action_iff_counterexample:
  "scp (exits_with 255 ''ssh: connect to host 10.0.0.5 port 22: Connection refused'')
     ''dev@10.0.0.5:/etc/app.conf'' ''/tmp/tmpab/app.conf'' (JBool True) ex_world
   = Inr (ex_world\<lparr>trace := [Exec (command ''dev@10.0.0.5:/etc/app.conf'' ''/tmp/tmpab/app.conf'')]\<rparr>) \<and>
   scp (exits_with 0 []) ''dev@10.0.0.5:/etc/app.conf'' ''/tmp/tmpab/app.conf'' (JBool True)
     ex_world
   = Inr (ex_world\<lparr>trace := [Exec (command ''dev@10.0.0.5:/etc/app.conf'' ''/tmp/tmpab/app.conf'')]\<rparr>)"
  by (simp add: scp_def after_exec_def exits_with_def ex_world_def log_event_def)

section \<open>The open command\<close>

lemma run_resolved:
  assumes "get_settings (load_settings e) (project_data e wid) c = Inr st"
      and "dict_get (s_ssh_configs st) alias = JDict d"
  shows "run e wid alias path c w =
     open_target e wid (compose_scp_path (py_str e) d alias (fst (split_line path)))
       (fst (split_line path)) (snd (split_line path)) (s_create_if_missing st) w"
  using assms by (simp add: run_def)

lemma scp_world:
  shows "views (world_of (scp ex f t c w)) = views w"
    and "\<exists>evs. trace (world_of (scp ex f t c w)) = trace w @ Exec (command f t) # evs \<and>
           (evs = [] \<or> (\<exists>m. evs = [ErrorMessage m]) \<or> (\<exists>m. evs = [StatusMessage m]))"
  by (auto simp: scp_def Let_def split: option.splits)

lemma scp_views: "scp ex f t c w = Inr w' \<Longrightarrow> views w' = views w"
  using scp_world(1) [of ex f t c w] by simp

lemma scp_trace:
  assumes "scp ex f t c w = Inr w'"
  shows "\<exists>evs. trace w' = trace w @ Exec (command f t) # evs \<and>
           (evs = [] \<or> (\<exists>m. evs = [ErrorMessage m]) \<or> (\<exists>m. evs = [StatusMessage m]))"
  using scp_world(2) [of ex f t c w] assms by simp

lemma find_Some_mem: "find P xs = Some x \<Longrightarrow> P x \<and> x \<in> set xs"
  by (auto simp: find_Some_iff)

lemma open_file_props:
  assumes "open_file wid p w = (v, w2)"
  shows "trace w2 = trace w" and "disk w2 = disk w" and "window v = wid"
    and "v \<in> set (views w2)" and "set (views w2) \<subseteq> insert v (set (views w))"
    and "file_name v = Some p"
  using assms
  by (auto simp: open_file_def Let_def split: option.splits dest: find_Some_mem)

lemma put_view_set:
  "x \<in> set (views (put_view v' w)) \<Longrightarrow> x = v' \<or> (x \<in> set (views w) \<and> vid x \<noteq> vid v')"
  by (auto simp: put_view_def split: if_splits)

lemma put_view_mem:
  "v \<in> set (views w) \<Longrightarrow> vid v = vid v' \<Longrightarrow> v' \<in> set (views (put_view v' w))"
  by (force simp: put_view_def)

lemma put_view_other [simp]: "trace (put_view v w) = trace w" "disk (put_view v w) = disk w"
  by (simp_all add: put_view_def)

lemma show_view_world:
  shows "views (world_of (show_view e v ln w)) = views w"
    and "disk (world_of (show_view e v ln w)) = disk w"
    and "trace (world_of (show_view e v ln w)) =
           trace w @ FocusView (vid v) #
             (if ln \<noteq> [] \<and> isdigit (unicode_isdigit e) ln
              then ClearSelection (vid v) #
                     (case int_of (unicode_int e) ln of
                        None \<Rightarrow> []
                      | Some n \<Rightarrow> [ShowLine (vid v) n])
              else [])"
  by (auto simp: show_view_def Let_def split: option.splits)

lemma show_view_cases:
  "(show_view e v ln w = Inr (world_of (show_view e v ln w)) \<and>
      \<not> (ln \<noteq> [] \<and> isdigit (unicode_isdigit e) ln \<and> int_of (unicode_int e) ln = None)) \<or>
   (show_view e v ln w = Inl (ValueError, world_of (show_view e v ln w)) \<and>
      ln \<noteq> [] \<and> isdigit (unicode_isdigit e) ln \<and> int_of (unicode_int e) ln = None)"
  by (auto simp: show_view_def Let_def split: option.splits)


lemma transfers_show_view [simp]: "transfers (world_of (show_view e v ln w)) = transfers w"
  by (simp add: transfers_def show_view_world split: option.splits)

lemma find_view_None:
  "find_view w wid sp = None \<longleftrightarrow>
     (\<forall>u \<in> set (views w). window u = wid \<longrightarrow> \<not> holds_session sp u)"
  by (auto simp: find_view_def find_None_iff)

lemma find_view_Some:
  "find_view w wid sp = Some v \<Longrightarrow> v \<in> set (views w) \<and> window v = wid \<and> holds_session sp v"
  by (auto simp: find_view_def dest!: find_Some_mem)

lemma find_view_cong: "views w' = views w \<Longrightarrow> find_view w' wid sp = find_view w wid sp"
  by (simp add: find_view_def)

lemma path_exists_nonempty: "path_exists f p \<Longrightarrow> p \<noteq> []"
  by (auto simp: path_exists_def locate_def)

lemma open_target_reuse:
  "find_view w wid sp = Some v \<Longrightarrow> open_target e wid sp path ln c w = show_view e v ln w"
  by (simp add: open_target_def)

text \<open>
  The open command for a target with no session in the window, when the fetch has
  returned and the temporary path exists: a view is shown that holds the session.
\<close>

lemma open_target_fetched:
  assumes new: "find_view w wid sp = None"
      and tmp: "mkdtemp (tmpdir e) w = Inr w0"
      and scp: "scp (exec e) sp (join (tmpdir e) (basename path)) c w0 = Inr wa"
      and ex: "path_exists (disk wa) (join (tmpdir e) (basename path))"
  shows "\<exists>v' w2. open_target e wid sp path ln c w = show_view e v' ln w2 \<and>
           trace w2 = trace wa \<and> disk w2 = disk wa \<and>
           v' \<in> set (views w2) \<and> window v' = wid \<and> holds_session sp v' \<and>
           v_create_if_missing v' = Some c \<and>
           v_temp_path v' = Some (join (tmpdir e) (basename path)) \<and>
           (\<forall>x \<in> set (views w2). x = v' \<or> (x \<in> set (views w) \<and> vid x \<noteq> vid v'))"
proof -
  let ?tp = "join (tmpdir e) (basename path)"
  obtain v0 w2 where of: "open_file wid ?tp wa = (v0, w2)" by (cases "open_file wid ?tp wa")
  define v' where "v' = v0\<lparr>v_is_remote_edit := Some True, v_scp_path := Some sp,
                                v_temp_path := Some ?tp, v_create_if_missing := Some c\<rparr>"
  have ot: "open_target e wid sp path ln c w = show_view e v' ln (put_view v' w2)"
    using new tmp scp ex of by (simp add: open_target_def Let_def v'_def)
  have vid: "vid v' = vid v0" by (simp add: v'_def)
  have va: "views wa = views w" using scp_views [OF scp] mkdtemp_Inr(1) [OF tmp] by simp
  have mem: "\<forall>x \<in> set (views (put_view v' w2)). x = v' \<or> (x \<in> set (views w) \<and> vid x \<noteq> vid v')"
  proof
    fix x assume "x \<in> set (views (put_view v' w2))"
    then have "x = v' \<or> (x \<in> set (views w2) \<and> vid x \<noteq> vid v')" by (rule put_view_set)
    then show "x = v' \<or> (x \<in> set (views w) \<and> vid x \<noteq> vid v')"
      using open_file_props(5) [OF of] va vid by auto
  qed
  have in': "v' \<in> set (views (put_view v' w2))"
    using open_file_props(4) [OF of] vid by (auto intro: put_view_mem)
  have win: "window v' = wid" using open_file_props(3) [OF of] by (simp add: v'_def)
  have hs: "holds_session sp v'"
    using path_exists_nonempty [OF ex] by (simp add: holds_session_def v'_def)
  have tw: "trace (put_view v' w2) = trace wa" "disk (put_view v' w2) = disk wa"
    using open_file_props(1,2) [OF of] by simp_all
  have st: "v_create_if_missing v' = Some c" "v_temp_path v' = Some ?tp"
    by (simp_all add: v'_def)
  from ot tw in' win hs st mem show ?thesis by blast
qed

lemma open_target_new:
  assumes new: "find_view w wid sp = None"
      and opened: "open_target e wid sp path ln c w = Inr w1"
      and reg: "find_view w1 wid sp = Some v"
  shows "v_create_if_missing v = Some c"
    and "v_temp_path v = Some (join (tmpdir e) (basename path))"
    and "\<forall>u \<in> set (views w1). vid u = vid v \<longrightarrow> u = v"
    and "\<forall>u \<in> set (views w1). window u = wid \<and> holds_session sp u \<longrightarrow> u = v"
    and "transfers w1 = Suc (transfers w)"
proof -
  let ?tp = "join (tmpdir e) (basename path)"
  obtain w0 where tmp: "mkdtemp (tmpdir e) w = Inr w0"
    using new opened by (cases "mkdtemp (tmpdir e) w") (simp_all add: open_target_def)
  obtain wa where scp: "scp (exec e) sp ?tp c w0 = Inr wa"
    using new opened tmp by (cases "scp (exec e) sp ?tp c w0") (simp_all add: open_target_def Let_def)
  have va: "views wa = views w" using scp_views [OF scp] mkdtemp_Inr(1) [OF tmp] by simp
  have ex: "path_exists (disk wa) ?tp"
  proof (rule ccontr)
    assume "\<not> path_exists (disk wa) ?tp"
    then have "w1 = wa" using new opened tmp scp by (simp add: open_target_def Let_def)
    then have "find_view w1 wid sp = None" using new va by (simp add: find_view_def)
    then show False using reg by simp
  qed
  obtain v' w2 where ot: "open_target e wid sp path ln c w = show_view e v' ln w2"
    and tr: "trace w2 = trace wa"
    and c: "v_create_if_missing v' = Some c" and tp: "v_temp_path v' = Some ?tp"
    and mem: "\<forall>x \<in> set (views w2). x = v' \<or> (x \<in> set (views w) \<and> vid x \<noteq> vid v')"
    using open_target_fetched [OF new tmp scp ex, of ln] by blast
  have "show_view e v' ln w2 = Inr w1" using ot opened by simp
  then have w1: "w1 = world_of (show_view e v' ln w2)" by simp
  have vw1: "views w1 = views w2" using w1 by (simp add: show_view_world)
  have old: "\<And>x. x \<in> set (views w) \<Longrightarrow> window x = wid \<Longrightarrow> \<not> holds_session sp x"
    using new by (simp add: find_view_None)
  have v: "v \<in> set (views w1)" "window v = wid" "holds_session sp v"
    using find_view_Some [OF reg] by simp_all
  have mem1: "\<forall>x \<in> set (views w1). x = v' \<or> (x \<in> set (views w) \<and> vid x \<noteq> vid v')"
    using mem vw1 by simp
  have eq: "v = v'" using mem1 old v by blast
  show "v_create_if_missing v = Some c" using eq c by simp
  show "v_temp_path v = Some ?tp" using eq tp by simp
  show "\<forall>u \<in> set (views w1). vid u = vid v \<longrightarrow> u = v" using mem1 eq by blast
  show "\<forall>u \<in> set (views w1). window u = wid \<and> holds_session sp u \<longrightarrow> u = v"
    using mem1 old eq by blast
  obtain evs where tra: "trace wa = trace w0 @ Exec (command sp ?tp) # evs"
    and evs: "evs = [] \<or> (\<exists>m. evs = [ErrorMessage m]) \<or> (\<exists>m. evs = [StatusMessage m])"
    using scp_trace [OF scp] by blast
  have "transfers wa = Suc (transfers w)"
    using tra evs mkdtemp_Inr(2) [OF tmp] by (auto simp: transfers_def)
  moreover have "transfers w2 = transfers wa" using tr by (simp add: transfers_def)
  ultimately show "transfers w1 = Suc (transfers w)" using w1 by simp
qed

lemma find_unique:
  assumes "v \<in> set xs" and "P v" and "\<forall>x \<in> set xs. P x \<longrightarrow> x = v"
  shows "find P xs = Some v"
proof -
  have "find P xs \<noteq> None" using assms(1,2) by (auto simp: find_None_iff)
  then obtain u where u: "find P xs = Some u" by auto
  then have "P u \<and> u \<in> set xs" by (rule find_Some_mem)
  then have "u = v" using assms(3) by blast
  then show ?thesis using u by simp
qed

lemmas ex_defs =
  ex_env_def ex_settings_def ex_world_def ex_disk_def exits_with_def fetches_def
  ex_view_def ex_opened_def ex_dir_view_def ex_dir_opened_def superscript_two_def

lemmas run_defs =
  run_def get_settings_def dict_get_def split_line_def compose_scp_path_def fmt_def
  open_target_def find_view_def holds_session_def join_def basename_def scp_def
  after_exec_def mkdtemp_def path_exists_def locate_def is_dir_def is_file_def
  open_file_def fresh_vid_def put_view_def show_view_def isdigit_def int_of_def
  digit_val_def ascii_def log_event_def Let_def

lemma ex_resolved:
  "get_settings (load_settings (ex_env x)) (project_data (ex_env x) wid) (JBool True)
     = Inr \<lparr>s_create_if_missing = JBool True,
            s_ssh_configs = [(''prod'', JDict [(''address'', JStr ''10.0.0.5''),
                                               (''username'', JStr ''dev'')])]\<rparr>"
  by (simp add: ex_env_def ex_settings_def get_settings_def dict_get_def)

lemma ex_alias:
  "dict_get (s_ssh_configs \<lparr>s_create_if_missing = JBool True,
            s_ssh_configs = [(''prod'', JDict [(''address'', JStr ''10.0.0.5''),
                                               (''username'', JStr ''dev'')])]\<rparr>) ''prod''
     = JDict [(''address'', JStr ''10.0.0.5''), (''username'', JStr ''dev'')]"
  by (simp add: dict_get_def)

lemma ex_run_opened:
  "run (ex_env (fetches [''tmp'', ''tmpab'', ''app.conf''] ''port = 80'')) 0 ''prod''
     ''/etc/app.conf'' (JBool True) ex_world = Inr ex_opened"
  by (simp add: ex_defs run_defs)

lemma ex_find_opened: "find_view ex_opened 0 ''dev@10.0.0.5:/etc/app.conf'' = Some ex_view"
  by (simp add: find_view_def holds_session_def ex_opened_def ex_view_def)

lemma ex_find_new: "find_view ex_world 0 sp = None"
  by (simp add: find_view_def ex_world_def)

lemma ex_mkdtemp:
  "mkdtemp (tmpdir (ex_env x)) ex_world
     = Inr (ex_world\<lparr>disk := ex_disk\<lparr>dirs := [[''tmp'', ''tmpab''], [''tmp'']]\<rparr>\<rparr>)"
  by (simp add: ex_defs mkdtemp_def locate_def is_dir_def is_file_def)

text \<open>
  C10, as the code has it. When the fetch of the open command exits with status 1 and
  an empty error text, \<open>scp\<close> does nothing beyond running the process, whatever
  \<open>create_if_missing\<close> is: no message of either kind, and the disk is as the process
  left it. The command then returns with no message, no view opened and no session
  when the temporary path does not exist; when it exists, a view is shown and holds
  a session for the target.
\<close>

theorem empty_stderr_silent:
  assumes st: "get_settings (load_settings e) (project_data e wid) c = Inr st"
      and d: "dict_get (s_ssh_configs st) alias = JDict d"
      and sp: "sp = compose_scp_path (py_str e) d alias (fst (split_line path))"
      and tp: "tp = join (tmpdir e) (basename (fst (split_line path)))"
      and nov: "find_view w wid sp = None"
      and tmp: "mkdtemp (tmpdir e) w = Inr w0"
      and rc: "returncode (exec e (command sp tp) (disk w0)) = 1"
      and err: "stderr (exec e (command sp tp) (disk w0)) = Some []"
  shows "scp (exec e) sp tp (s_create_if_missing st) w0 = Inr (after_exec (exec e) sp tp w0) \<and>
         (\<not> path_exists (disk_after (exec e (command sp tp) (disk w0))) tp \<longrightarrow>
            (\<exists>w'. run e wid alias path c w = Inr w' \<and>
                  views w' = views w \<and>
                  trace w' = trace w @ [Exec (command sp tp)] \<and>
                  disk w' = disk_after (exec e (command sp tp) (disk w0)))) \<and>
         (path_exists (disk_after (exec e (command sp tp) (disk w0))) tp \<longrightarrow>
            (\<exists>v. find_view (world_of (run e wid alias path c w)) wid sp = Some v \<and>
                 FocusView (vid v) \<in> set (trace (world_of (run e wid alias path c w)))))"
proof -
  let ?c = "s_create_if_missing st"
  let ?ln = "snd (split_line path)"
  let ?wa = "after_exec (exec e) sp tp w0"
  have scp: "scp (exec e) sp tp ?c w0 = Inr ?wa"
    using rc err by (simp add: scp_def Let_def)
  have run: "run e wid alias path c w = open_target e wid sp (fst (split_line path)) ?ln ?c w"
    using run_resolved [OF st d] sp by simp
  have absent: "\<exists>w'. run e wid alias path c w = Inr w' \<and> views w' = views w \<and>
                  trace w' = trace w @ [Exec (command sp tp)] \<and>
                  disk w' = disk_after (exec e (command sp tp) (disk w0))"
    if "\<not> path_exists (disk_after (exec e (command sp tp) (disk w0))) tp"
  proof -
    have "run e wid alias path c w = Inr ?wa"
      using run nov tmp scp that tp by (simp add: open_target_def Let_def)
    then show ?thesis using mkdtemp_Inr [OF tmp] by simp
  qed
  have present: "\<exists>v. find_view (world_of (run e wid alias path c w)) wid sp = Some v \<and>
                 FocusView (vid v) \<in> set (trace (world_of (run e wid alias path c w)))"
    if "path_exists (disk_after (exec e (command sp tp) (disk w0))) tp"
  proof -
    have ex: "path_exists (disk ?wa) (join (tmpdir e) (basename (fst (split_line path))))"
      using that tp by simp
    have scp': "scp (exec e) sp (join (tmpdir e) (basename (fst (split_line path)))) ?c w0 = Inr ?wa"
      using scp tp by simp
    obtain v' w2 where ot: "open_target e wid sp (fst (split_line path)) ?ln ?c w
                             = show_view e v' ?ln w2"
      and v': "v' \<in> set (views w2)" "window v' = wid" "holds_session sp v'"
      and mem: "\<forall>x \<in> set (views w2). x = v' \<or> (x \<in> set (views w) \<and> vid x \<noteq> vid v')"
      using open_target_fetched [OF nov tmp scp' ex, of ?ln] by blast
    let ?w' = "world_of (run e wid alias path c w)"
    have vw: "views ?w' = views w2" using run ot by (simp add: show_view_world)
    have old: "\<And>x. x \<in> set (views w) \<Longrightarrow> window x = wid \<Longrightarrow> \<not> holds_session sp x"
      using nov by (simp add: find_view_None)
    have "find (holds_session sp) (filter (\<lambda>u. window u = wid) (views w2)) = Some v'"
      using v' mem old by (intro find_unique) auto
    then have f: "find_view ?w' wid sp = Some v'" using vw by (simp add: find_view_def)
    have "FocusView (vid v') \<in> set (trace ?w')" using run ot by (simp add: show_view_world)
    then show ?thesis using f by blast
  qed
  show ?thesis using scp absent present by blast
qed

theorem empty_stderr_silent_witness:
  "\<exists>w'. run (ex_env (exits_with 1 [])) 0 ''prod'' ''/etc/app.conf'' (JBool True) ex_world = Inr w' \<and>
     views w' = [] \<and>
     trace w' = [Exec (command ''dev@10.0.0.5:/etc/app.conf'' ''/tmp/tmpab/app.conf'')] \<and>
     disk w' = \<lparr>files = [], dirs = [[''tmp'', ''tmpab''], [''tmp'']], cwd = []\<rparr>"
proof -
  have sp: "''dev@10.0.0.5:/etc/app.conf'' =
      compose_scp_path (py_str (ex_env (exits_with 1 [])))
        [(''address'', JStr ''10.0.0.5''), (''username'', JStr ''dev'')] ''prod''
        (fst (split_line ''/etc/app.conf''))"
    by (simp add: compose_scp_path_def fmt_def split_line_def)
  have tp: "''/tmp/tmpab/app.conf'' =
      join (tmpdir (ex_env (exits_with 1 []))) (basename (fst (split_line ''/etc/app.conf'')))"
    by (simp add: ex_env_def join_def basename_def split_line_def)
  show ?thesis
    using empty_stderr_silent [OF ex_resolved ex_alias sp tp ex_find_new ex_mkdtemp,
            THEN conjunct2, THEN conjunct1]
    by (simp add: ex_defs path_exists_def locate_def is_dir_def is_file_def)
qed

text \<open>
  C10 as it is written fails: for the remote path \<open>/etc/.\<close> the temporary path is
  \<open>/tmp/tmpab/.\<close>, the new directory, which exists; with exit status 1 and an empty
  error text the command does not return early: it opens a view and registers a session.
\<close>

theorem empty_stderr_silent_counterexample:
  "run (ex_env (exits_with 1 [])) 0 ''prod'' ''/etc/.'' (JBool True) ex_world
   = Inr \<lparr>disk = \<lparr>files = [], dirs = [[''tmp'', ''tmpab''], [''tmp'']], cwd = []\<rparr>,
          views = [\<lparr>vid = 1, window = 0, file_name = Some ''/tmp/tmpab/.'',
                    v_is_remote_edit = Some True,
                    v_scp_path = Some ''dev@10.0.0.5:/etc/.'',
                    v_temp_path = Some ''/tmp/tmpab/.'',
                    v_create_if_missing = Some (JBool True)\<rparr>],
          trace = [Exec (command ''dev@10.0.0.5:/etc/.'' ''/tmp/tmpab/.''),
                   FocusView 1, ClearSelection 1, ShowLine 1 0]\<rparr>"
  by (simp add: ex_defs run_defs)

section \<open>Sessions: opening again, saving, closing\<close>

lemma on_post_save_complete:
  assumes "v_is_remote_edit v = Some True" and "v_scp_path v = Some sp"
      and "v_temp_path v = Some tp" and "v_create_if_missing v = Some c"
  shows "on_post_save ex v w = scp ex tp sp c w"
  using assms by (simp add: on_post_save_def)

lemma save_all_push_all:
  assumes "find (\<lambda>u. vid u = i) (views w) = Some v"
      and "v_is_remote_edit v = Some True" and "v_scp_path v = Some sp"
      and "v_temp_path v = Some tp" and "v_create_if_missing v = Some c"
  shows "save_all exs i w = push_all exs tp sp c w"
  using assms(1)
proof (induction exs arbitrary: w)
  case Nil
  then show ?case by simp
next
  case (Cons ex exs)
  have step: "on_post_save ex v w = scp ex tp sp c w"
    using assms(2-5) by (rule on_post_save_complete)
  show ?case
  proof (cases "scp ex tp sp c w")
    case (Inl err)
    then show ?thesis using Cons.prems step by simp
  next
    case (Inr w')
    have "find (\<lambda>u. vid u = i) (views w') = Some v"
      using scp_views [OF Inr] Cons.prems by simp
    then have "save_all exs i w' = push_all exs tp sp c w'" by (rule Cons.IH)
    then show ?thesis using Cons.prems step Inr by simp
  qed
qed

lemma find_vid:
  assumes "v \<in> set xs" and "\<forall>u \<in> set xs. vid u = vid v \<longrightarrow> u = v"
  shows "find (\<lambda>u. vid u = vid v) xs = Some v"
  using assms by (induction xs) auto

text \<open>
  C9. The \<open>create_if_missing\<close> that the open command resolved, and passed to the fetch,
  is the one stored on the view of the new session; \<open>on_post_save\<close> on that view is the
  transfer from the temporary file to the composed path with exactly the stored value
  (it takes no settings and reads none); and every run of saves on that view is the
  same run of transfers with that one value.
\<close>

theorem policy_fixed_at_creation:
  assumes st: "get_settings (load_settings e) (project_data e wid) c = Inr st"
      and d: "dict_get (s_ssh_configs st) alias = JDict d"
      and sp: "sp = compose_scp_path (py_str e) d alias (fst (split_line path))"
      and tp: "tp = join (tmpdir e) (basename (fst (split_line path)))"
      and new: "find_view w wid sp = None"
      and opened: "run e wid alias path c w = Inr w1"
      and reg: "find_view w1 wid sp = Some v"
  shows "v_create_if_missing v = Some (s_create_if_missing st) \<and>
         (\<forall>ex w'. on_post_save ex v w' = scp ex tp sp (s_create_if_missing st) w') \<and>
         (\<forall>exs. save_all exs (vid v) w1 = push_all exs tp sp (s_create_if_missing st) w1)"
proof -
  let ?c = "s_create_if_missing st"
  have ot: "open_target e wid sp (fst (split_line path)) (snd (split_line path)) ?c w = Inr w1"
    using run_resolved [OF st d, of path w] opened sp by simp
  have c: "v_create_if_missing v = Some ?c" and vtp: "v_temp_path v = Some tp"
    and only: "\<forall>u \<in> set (views w1). vid u = vid v \<longrightarrow> u = v"
    using open_target_new [OF new ot reg] tp by simp_all
  have v: "v \<in> set (views w1)" and hs: "holds_session sp v"
    using find_view_Some [OF reg] by simp_all
  have re: "v_is_remote_edit v = Some True" and vsp: "v_scp_path v = Some sp"
    using hs by (simp_all add: holds_session_def)
  have one: "\<And>ex w'. on_post_save ex v w' = scp ex tp sp ?c w'"
    using re vsp vtp c by (rule on_post_save_complete)
  have "find (\<lambda>u. vid u = vid v) (views w1) = Some v" using v only by (rule find_vid)
  then have "\<And>exs. save_all exs (vid v) w1 = push_all exs tp sp ?c w1"
    using re vsp vtp c by (rule save_all_push_all)
  then show ?thesis using c one by simp
qed

text \<open>
  C6, as the code has it. When an open command in a window, for a target not open
  there before, has registered a session (the lookup for the composed path finds a
  view afterwards), it has made exactly one transfer, and a second open command in the
  same window that resolves to the same composed path (whatever the alias, the line
  suffix or the settings then) makes no transfer: it focuses the view of the session
  and leaves the views and the disk as they are; that view is the only one of the
  window that holds a session for the path. The second command returns, unless its
  line suffix is one that \<open>isdigit\<close> accepts and \<open>int\<close> rejects: then it raises
  \<open>ValueError\<close>, with the same said of the world it leaves.
\<close>

theorem reopen_same_window:
  assumes st1: "get_settings (load_settings e1) (project_data e1 wid) c1 = Inr st1"
      and d1: "dict_get (s_ssh_configs st1) a1 = JDict d1"
      and st2: "get_settings (load_settings e2) (project_data e2 wid) c2 = Inr st2"
      and d2: "dict_get (s_ssh_configs st2) a2 = JDict d2"
      and sp1: "compose_scp_path (py_str e1) d1 a1 (fst (split_line p1)) = sp"
      and sp2: "compose_scp_path (py_str e2) d2 a2 (fst (split_line p2)) = sp"
      and new: "find_view w wid sp = None"
      and first: "run e1 wid a1 p1 c1 w = Inr w1"
      and reg: "find_view w1 wid sp = Some v"
  shows "transfers w1 = Suc (transfers w) \<and>
         (\<exists>w2. world_of (run e2 wid a2 p2 c2 w1) = w2 \<and>
               ((run e2 wid a2 p2 c2 w1 = Inr w2 \<and>
                   \<not> (snd (split_line p2) \<noteq> [] \<and>
                      isdigit (unicode_isdigit e2) (snd (split_line p2)) \<and>
                      int_of (unicode_int e2) (snd (split_line p2)) = None)) \<or>
                (run e2 wid a2 p2 c2 w1 = Inl (ValueError, w2) \<and>
                   snd (split_line p2) \<noteq> [] \<and>
                   isdigit (unicode_isdigit e2) (snd (split_line p2)) \<and>
                   int_of (unicode_int e2) (snd (split_line p2)) = None)) \<and>
               transfers w2 = transfers w1 \<and>
               views w2 = views w1 \<and>
               disk w2 = disk w1 \<and>
               trace w2 = trace w1 @ FocusView (vid v) #
                 (if snd (split_line p2) \<noteq> [] \<and>
                     isdigit (unicode_isdigit e2) (snd (split_line p2))
                  then ClearSelection (vid v) #
                         (case int_of (unicode_int e2) (snd (split_line p2)) of
                            None \<Rightarrow> []
                          | Some n \<Rightarrow> [ShowLine (vid v) n])
                  else []) \<and>
               (\<forall>u \<in> set (views w2). window u = wid \<and> holds_session sp u \<longrightarrow> u = v))"
proof -
  have o1: "open_target e1 wid sp (fst (split_line p1)) (snd (split_line p1))
              (s_create_if_missing st1) w = Inr w1"
    using run_resolved [OF st1 d1, of p1 w] first sp1 by simp
  have n: "transfers w1 = Suc (transfers w)"
    and only: "\<forall>u \<in> set (views w1). window u = wid \<and> holds_session sp u \<longrightarrow> u = v"
    using open_target_new [OF new o1 reg] by simp_all
  have "run e2 wid a2 p2 c2 w1 =
          open_target e2 wid sp (fst (split_line p2)) (snd (split_line p2))
            (s_create_if_missing st2) w1"
    using run_resolved [OF st2 d2, of p2 w1] sp2 by simp
  then have r2: "run e2 wid a2 p2 c2 w1 = show_view e2 v (snd (split_line p2)) w1"
    using open_target_reuse [OF reg] by simp
  show ?thesis
    using n only show_view_cases [of e2 v "snd (split_line p2)" w1]
    by (simp add: r2 show_view_world)
qed







text \<open>
  A line suffix that \<open>isdigit\<close> accepts and \<open>int\<close> rejects, the superscript two: the view
  is opened and focused, the selection is cleared, and \<open>int\<close> raises.
\<close>

lemma run_superscript_two_raises:
  "run (ex_env (fetches [''tmp'', ''tmpab'', ''app.conf''] ''port = 80'')) 0 ''prod''
     (''/etc/app.conf:'' @ superscript_two) (JBool True) ex_world
   = Inl (ValueError,
          \<lparr>disk = \<lparr>files = [([''tmp'', ''tmpab'', ''app.conf''], ''port = 80'')],
                    dirs = [[''tmp'', ''tmpab''], [''tmp'']], cwd = []\<rparr>,
           views = [ex_view],
           trace = [Exec (command ''dev@10.0.0.5:/etc/app.conf'' ''/tmp/tmpab/app.conf''),
                    FocusView 1, ClearSelection 1]\<rparr>)"
  by (simp add: ex_defs run_defs)

theorem policy_fixed_at_creation_witness:
  "v_create_if_missing ex_view = Some (JBool True) \<and>
   save_all [exits_with 0 [], exits_with 1 ''Permission denied''] 1 ex_opened =
   push_all [exits_with 0 [], exits_with 1 ''Permission denied''] ''/tmp/tmpab/app.conf''
     ''dev@10.0.0.5:/etc/app.conf'' (JBool True) ex_opened"
proof -
  have sp: "''dev@10.0.0.5:/etc/app.conf'' =
      compose_scp_path (py_str (ex_env (fetches [''tmp'', ''tmpab'', ''app.conf''] ''port = 80'')))
        [(''address'', JStr ''10.0.0.5''), (''username'', JStr ''dev'')] ''prod''
        (fst (split_line ''/etc/app.conf''))"
    by (simp add: compose_scp_path_def fmt_def split_line_def)
  have tp: "''/tmp/tmpab/app.conf'' =
      join (tmpdir (ex_env (fetches [''tmp'', ''tmpab'', ''app.conf''] ''port = 80'')))
        (basename (fst (split_line ''/etc/app.conf'')))"
    by (simp add: ex_env_def join_def basename_def split_line_def)
  have "vid ex_view = 1" by (simp add: ex_view_def)
  then show ?thesis
    using policy_fixed_at_creation
            [OF ex_resolved ex_alias sp tp ex_find_new ex_run_opened ex_find_opened]
    by simp
qed

theorem reopen_same_window_witness:
  "transfers ex_opened = Suc (transfers ex_world) \<and>
   (\<exists>w2. run (ex_env (exits_with 1 ''Connection refused'')) 0 ''prod'' ''/etc/app.conf:7''
            (JBool True) ex_opened = Inr w2 \<and>
          transfers w2 = transfers ex_opened \<and>
          views w2 = views ex_opened \<and>
          trace w2 = trace ex_opened @ [FocusView 1, ClearSelection 1, ShowLine 1 7])"
proof -
  have sp1: "compose_scp_path (py_str (ex_env (fetches [''tmp'', ''tmpab'', ''app.conf''] ''port = 80'')))
        [(''address'', JStr ''10.0.0.5''), (''username'', JStr ''dev'')] ''prod''
        (fst (split_line ''/etc/app.conf'')) = ''dev@10.0.0.5:/etc/app.conf''"
    by (simp add: compose_scp_path_def fmt_def split_line_def)
  have sp2: "compose_scp_path (py_str (ex_env (exits_with 1 ''Connection refused'')))
        [(''address'', JStr ''10.0.0.5''), (''username'', JStr ''dev'')] ''prod''
        (fst (split_line ''/etc/app.conf:7'')) = ''dev@10.0.0.5:/etc/app.conf''"
    by (simp add: compose_scp_path_def fmt_def split_line_def)
  have ln: "snd (split_line ''/etc/app.conf:7'') = ''7''" by (simp add: split_line_def)
  have dg: "isdigit u ''7''" "int_of u' ''7'' = Some 7" for u u'
    by (simp_all add: isdigit_def int_of_def digit_val_def ascii_def)
  have v: "vid ex_view = 1" by (simp add: ex_view_def)
  show ?thesis
    using reopen_same_window
            [OF ex_resolved ex_alias ex_resolved ex_alias sp1 sp2 ex_find_new ex_run_opened
                ex_find_opened]
    by (auto simp: ln v dg)
qed

text \<open>
  C6 as it is written fails: the lookup is over the views of the command's own window.
  The same target opened in window 0 and then in window 1 is fetched twice, and two
  sessions for it are live.
\<close>

theorem reopen_counterexample:
  "run (ex_env (fetches [''tmp'', ''tmpab'', ''app.conf''] ''port = 80'')) 0 ''prod''
     ''/etc/app.conf'' (JBool True) ex_world = Inr ex_opened \<and>
   run ((ex_env (fetches [''tmp'', ''tmpcd'', ''app.conf''] ''port = 80''))
          \<lparr>tmpdir := ''/tmp/tmpcd''\<rparr>) 1 ''prod'' ''/etc/app.conf'' (JBool True) ex_opened
   = Inr \<lparr>disk = \<lparr>files = [([''tmp'', ''tmpcd'', ''app.conf''], ''port = 80''),
                           ([''tmp'', ''tmpab'', ''app.conf''], ''port = 80'')],
                   dirs = [[''tmp'', ''tmpcd''], [''tmp'', ''tmpab''], [''tmp'']], cwd = []\<rparr>,
          views = [ex_view,
                   \<lparr>vid = 2, window = 1, file_name = Some ''/tmp/tmpcd/app.conf'',
                    v_is_remote_edit = Some True,
                    v_scp_path = Some ''dev@10.0.0.5:/etc/app.conf'',
                    v_temp_path = Some ''/tmp/tmpcd/app.conf'',
                    v_create_if_missing = Some (JBool True)\<rparr>],
          trace = [Exec (command ''dev@10.0.0.5:/etc/app.conf'' ''/tmp/tmpab/app.conf''),
                   FocusView 1, ClearSelection 1, ShowLine 1 0,
                   Exec (command ''dev@10.0.0.5:/etc/app.conf'' ''/tmp/tmpcd/app.conf''),
                   FocusView 2, ClearSelection 2, ShowLine 2 0]\<rparr>"
  by (simp add: ex_defs run_defs)

text \<open>
  C7 does not hold of the code. The fetch fails with "Permission denied": the error is
  shown, no temporary file exists, and the command returns at line 180 with no session;
  the directory that \<open>mkdtemp\<close> made is still on the disk.
\<close>

theorem open_fatal_leaves_directory:
  "run (ex_env (exits_with 1 ''scp: /etc/app.conf: Permission denied'')) 0 ''prod''
     ''/etc/app.conf'' (JBool True) ex_world
   = Inr \<lparr>disk = \<lparr>files = [], dirs = [[''tmp'', ''tmpab''], [''tmp'']], cwd = []\<rparr>,
          views = [],
          trace = [Exec (command ''dev@10.0.0.5:/etc/app.conf'' ''/tmp/tmpab/app.conf''),
                   ErrorMessage ''scp: /etc/app.conf: Permission denied'']\<rparr>"
  by (simp add: ex_defs run_defs lower_def lower_char_def)




end
